theory Spec2Isabelle
  imports Main
begin

section \<open>The iCloud Photos to S3 synchronisation engine\<close>

text \<open>
  A shallow embedding of \<^verbatim>\<open>src/icloud_to_s3.py\<close>: the class \<^verbatim>\<open>iCloudS3Sync\<close> with its
  methods \<^verbatim>\<open>load_sync_state\<close>, \<^verbatim>\<open>save_sync_state\<close>, \<^verbatim>\<open>get_file_hash\<close>,
  \<^verbatim>\<open>file_exists_in_s3\<close>, \<^verbatim>\<open>upload_to_s3\<close>, \<^verbatim>\<open>generate_s3_key\<close>,
  \<^verbatim>\<open>download_and_upload_photo\<close> and \<^verbatim>\<open>sync_photos\<close>, and the part of \<^verbatim>\<open>main\<close> that
  turns the outcome of a run into the process exit status.

  The methods mutate the object and the outside world (local files, the checkpoint file,
  the bucket), so every method takes the state and returns it updated. A Python call
  either returns a value or raises; the model returns \<open>Return v\<close> or \<open>Raise e\<close>.
\<close>

subsection \<open>Exceptions and results\<close>

text \<open>
  The handlers of the source tell three kinds of exception apart:
  \<^verbatim>\<open>except ClientError\<close> catches botocore's \<^verbatim>\<open>ClientError\<close> only (it carries the error
  code of the service's response); \<^verbatim>\<open>except Exception\<close> catches every \<^verbatim>\<open>Exception\<close>,
  so \<^verbatim>\<open>ClientError\<close> and any other one (a connection error, a timeout, an
  \<^verbatim>\<open>OSError\<close>), but not \<^verbatim>\<open>KeyboardInterrupt\<close>, which derives from
  \<^verbatim>\<open>BaseException\<close>; \<^verbatim>\<open>except KeyboardInterrupt\<close> is in \<^verbatim>\<open>main\<close> only.
\<close>

datatype exn = ClientError string | OtherException | KeyboardInterrupt

datatype 'a py = Raise exn | Return 'a

text \<open>\<^verbatim>\<open>isinstance(e, Exception)\<close>.\<close>

fun is_Exception :: "exn \<Rightarrow> bool" where
  "is_Exception (ClientError code) = True"
| "is_Exception OtherException = True"
| "is_Exception KeyboardInterrupt = False"

subsection \<open>The source inventory\<close>

type_synonym bytes = "nat list"

text \<open>
  Of a \<^verbatim>\<open>datetime\<close> the code reads \<^verbatim>\<open>year\<close>, \<^verbatim>\<open>month\<close> and \<^verbatim>\<open>isoformat()\<close>.
\<close>

record datetime =
  year :: nat
  month :: nat
  isoformat :: string

text \<open>
  A photo of the inventory. \<open>filename\<close>, \<open>created\<close> and \<open>asset_date\<close> are attributes the
  code looks up with \<^verbatim>\<open>getattr\<close> and \<^verbatim>\<open>hasattr\<close>: \<open>None\<close> stands for an absent
  attribute. \<open>download\<close> is what \<^verbatim>\<open>photo.download()\<close> does: it raises, or returns a falsy
  response (\<open>None\<close>), or returns a response whose \<^verbatim>\<open>raw.read()\<close> raises or returns the
  content.
\<close>

record photo =
  icloud_id :: string
  filename :: "string option"
  created :: "datetime option"
  asset_date :: "datetime option"
  download :: "bytes py option py"

subsection \<open>The outside world\<close>

text \<open>
  The calls that leave the process are recorded in a trace, in the order they are made.
  The number of calls made so far is the time at which the next call is answered.
\<close>

datatype event =
    Download string
  | HeadObject string
  | UploadFile string "(string \<times> string) list"
  | SaveState

text \<open>
  What the libraries and services answer: the MD5 hex digest of a byte string; the
  response of \<^verbatim>\<open>head_object\<close> for a key at a time (the \<^verbatim>\<open>ETag\<close> field of the response,
  if it has one, or an exception); whether \<^verbatim>\<open>upload_file\<close> for a key at a time raises;
  whether writing the checkpoint file at a time raises; the clock; the name of the
  temporary directory created at a time.
\<close>

record env =
  md5_hexdigest :: "bytes \<Rightarrow> string"
  head_object :: "nat \<Rightarrow> string \<Rightarrow> string option py"
  upload_file :: "nat \<Rightarrow> string \<Rightarrow> unit py"
  write_state_file :: "nat \<Rightarrow> unit py"
  now_isoformat :: "nat \<Rightarrow> string"
  mkdtemp :: "nat \<Rightarrow> string"

text \<open>
  The checkpoint file \<^verbatim>\<open>sync_state.json\<close>: absent, present but not readable as JSON, or
  holding the \<^verbatim>\<open>processed_files\<close> array (read back as a set, so kept as one).
\<close>

datatype state_file_content = Absent | Unreadable | Stored "string set"

text \<open>
  The object \<^verbatim>\<open>self\<close> (\<open>icloud\<close> is \<open>None\<close> until the connection is set up, and then the
  list that \<^verbatim>\<open>self.icloud.photos.all\<close> enumerates; \<open>s3_client\<close> says whether the client
  is set), together with the local files, the checkpoint file and the trace.
\<close>

record iCloudS3Sync =
  icloud :: "photo list option"
  s3_client :: bool
  processed_files :: "string set"
  local_files :: "string \<rightharpoonup> bytes"
  state_file :: state_file_content
  trace :: "event list"

text \<open>The statistics dictionary of \<^verbatim>\<open>sync_photos\<close>.\<close>

record stats =
  total :: nat
  processed :: nat
  uploaded :: nat
  skipped :: nat
  errors :: nat

subsection \<open>Checkpoint store\<close>

text \<open>
  \<^verbatim>\<open>load_sync_state\<close>: when the file exists and can be read, \<^verbatim>\<open>processed_files\<close> is
  replaced by its content; otherwise the set stays as it is. (The dictionary the method
  returns is not used by its caller.)
\<close>

definition load_sync_state :: "iCloudS3Sync \<Rightarrow> iCloudS3Sync" where
  "load_sync_state self =
     (case state_file self of
        Absent \<Rightarrow> self
      | Unreadable \<Rightarrow> self
      | Stored keys \<Rightarrow> self\<lparr>processed_files := keys\<rparr>)"

text \<open>
  \<^verbatim>\<open>save_sync_state\<close>: writes the whole set; an exception while writing is logged and
  swallowed, and the file is then taken to be as it was.
\<close>

definition save_sync_state :: "env \<Rightarrow> iCloudS3Sync \<Rightarrow> iCloudS3Sync" where
  "save_sync_state env self =
     (let self1 = self\<lparr>trace := trace self @ [SaveState]\<rparr>
      in case write_state_file env (length (trace self)) of
           Return u \<Rightarrow> self1\<lparr>state_file := Stored (processed_files self)\<rparr>
         | Raise e \<Rightarrow> self1)"

subsection \<open>Fingerprinter\<close>

text \<open>
  \<^verbatim>\<open>get_file_hash\<close> feeds the file to MD5 in chunks of 4096 bytes; the digest of the
  chunks fed in order is the digest of the file. Opening a file that does not exist
  raises.
\<close>

definition get_file_hash :: "env \<Rightarrow> string \<Rightarrow> iCloudS3Sync \<Rightarrow> string py" where
  "get_file_hash env file_path self =
     (case local_files self file_path of
        None \<Rightarrow> Raise OtherException
      | Some content \<Rightarrow> Return (md5_hexdigest env content))"

subsection \<open>Destination prober\<close>

text \<open>\<^verbatim>\<open>s.strip('"')\<close>: every leading and every trailing double quote is removed.\<close>

definition strip_quotes :: "string \<Rightarrow> string" where
  "strip_quotes s =
     rev (dropWhile (\<lambda>c. c = CHR 0x22) (rev (dropWhile (\<lambda>c. c = CHR 0x22) s)))"

text \<open>
  \<^verbatim>\<open>file_exists_in_s3\<close>: \<^verbatim>\<open>response.get('ETag', '')\<close> is the empty string when the
  response has no \<^verbatim>\<open>ETag\<close>. Only \<^verbatim>\<open>ClientError\<close> is caught.
\<close>

definition file_exists_in_s3 ::
  "env \<Rightarrow> string \<Rightarrow> string \<Rightarrow> iCloudS3Sync \<Rightarrow> bool py \<times> iCloudS3Sync" where
  "file_exists_in_s3 env s3_key local_hash self =
     (let self1 = self\<lparr>trace := trace self @ [HeadObject s3_key]\<rparr>
      in case head_object env (length (trace self)) s3_key of
           Return response \<Rightarrow>
             (let s3_etag = strip_quotes (case response of None \<Rightarrow> [] | Some etag \<Rightarrow> etag)
              in (Return (s3_etag = local_hash), self1))
         | Raise (ClientError code) \<Rightarrow>
             (if code = ''404'' then (Return False, self1) else (Return False, self1))
         | Raise e \<Rightarrow> (Raise e, self1))"

subsection \<open>Upload\<close>

text \<open>
  \<^verbatim>\<open>upload_to_s3\<close>: \<^verbatim>\<open>except Exception\<close> turns every exception but
  \<^verbatim>\<open>KeyboardInterrupt\<close> into the result \<^verbatim>\<open>False\<close>. The content type and the storage
  class are passed through to the client and decide nothing here; the trace keeps the
  key and the metadata of the call.
\<close>

definition upload_to_s3 ::
  "env \<Rightarrow> string \<Rightarrow> string \<Rightarrow> (string \<times> string) list \<Rightarrow> iCloudS3Sync \<Rightarrow> bool py \<times> iCloudS3Sync" where
  "upload_to_s3 env local_path s3_key metadata self =
     (let self1 = self\<lparr>trace := trace self @ [UploadFile s3_key metadata]\<rparr>
      in case (case local_files self local_path of
                 None \<Rightarrow> Raise OtherException
               | Some content \<Rightarrow> upload_file env (length (trace self)) s3_key) of
           Return u \<Rightarrow> (Return True, self1)
         | Raise e \<Rightarrow> (if is_Exception e then (Return False, self1) else (Raise e, self1)))"

subsection \<open>Destination key\<close>

text \<open>\<^verbatim>\<open>str(n)\<close> for a natural number, and \<^verbatim>\<open>f"{n:02d}"\<close>.\<close>

fun str_nat :: "nat \<Rightarrow> string" where
  "str_nat n =
     (if n < 10 then [''0123456789'' ! n]
      else str_nat (n div 10) @ [''0123456789'' ! (n mod 10)])"

declare str_nat.simps [simp del]

definition format_02d :: "nat \<Rightarrow> string" where
  "format_02d n = (if n < 10 then ''0'' @ str_nat n else str_nat n)"

definition generate_s3_key :: "photo \<Rightarrow> string \<Rightarrow> string" where
  "generate_s3_key photo fname =
     (let created_date =
            (case created photo of
               Some d \<Rightarrow> Some d
             | None \<Rightarrow> (case asset_date photo of Some d \<Rightarrow> Some d | None \<Rightarrow> None))
      in case created_date of
           Some d \<Rightarrow> ''photos/'' @ str_nat (year d) @ ''/'' @ format_02d (month d) @ ''/'' @ fname
         | None \<Rightarrow> ''photos/unknown_date/'' @ fname)"

subsection \<open>Transfer engine\<close>

text \<open>\<^verbatim>\<open>getattr(photo, 'filename', f"photo_{photo.id}.jpg")\<close>.\<close>

definition photo_filename :: "photo \<Rightarrow> string" where
  "photo_filename photo =
     (case filename photo of
        Some name \<Rightarrow> name
      | None \<Rightarrow> ''photo_'' @ icloud_id photo @ ''.jpg'')"

text \<open>
  The identifier \<^verbatim>\<open>f"{photo.id}_{filename}"\<close> that \<^verbatim>\<open>download_and_upload_photo\<close> calls
  \<^verbatim>\<open>photo_id\<close> and \<^verbatim>\<open>sync_photos\<close> builds again: the key of the checkpoint.
\<close>

definition item_key :: "photo \<Rightarrow> string" where
  "item_key photo = icloud_id photo @ ''_'' @ photo_filename photo"

text \<open>\<^verbatim>\<open>os.path.join\<close> of two components (POSIX).\<close>

definition os_path_join :: "string \<Rightarrow> string \<Rightarrow> string" where
  "os_path_join a b =
     (if take 1 b = ''/'' then b
      else if a = [] \<or> last a = CHR ''/'' then a @ b
      else a @ ''/'' @ b)"

text \<open>
  The handler \<^verbatim>\<open>except Exception as e: ...; return False\<close> of
  \<^verbatim>\<open>download_and_upload_photo\<close>: a \<^verbatim>\<open>KeyboardInterrupt\<close> passes through it.
\<close>

definition except_Exception_return_False :: "exn \<Rightarrow> bool py" where
  "except_Exception_return_False e = (if is_Exception e then Return False else Raise e)"

definition os_remove :: "string \<Rightarrow> iCloudS3Sync \<Rightarrow> iCloudS3Sync" where
  "os_remove path self = self\<lparr>local_files := (local_files self)(path := None)\<rparr>"

text \<open>
  \<^verbatim>\<open>download_and_upload_photo\<close>. \<^verbatim>\<open>open(temp_file, 'wb')\<close> creates the file before
  \<^verbatim>\<open>download_response.raw.read()\<close> is evaluated, so a failing read leaves an empty
  file. Creating and writing the scratch file are taken to succeed. The file that
  \<^verbatim>\<open>os.remove\<close> deletes was written a few lines before, so the call does not raise.
  The checkpoint fast path returns before any call is made.
\<close>

definition download_and_upload_photo ::
  "env \<Rightarrow> photo \<Rightarrow> string \<Rightarrow> iCloudS3Sync \<Rightarrow> bool py \<times> iCloudS3Sync" where
  "download_and_upload_photo env photo temp_dir self =
     (let fname = photo_filename photo;
          photo_id = icloud_id photo @ ''_'' @ fname
      in if photo_id \<in> processed_files self then (Return True, self)
         else
          (let temp_file = os_path_join temp_dir fname;
               self1 = self\<lparr>trace := trace self @ [Download (icloud_id photo)]\<rparr>
           in (case download photo of
                 Raise e \<Rightarrow> (except_Exception_return_False e, self1)
               | Return None \<Rightarrow> (Return False, self1)
               | Return (Some raw) \<Rightarrow>
                  (let self2 = self1\<lparr>local_files := (local_files self1)(temp_file \<mapsto> [])\<rparr>
                   in (case raw of
                         Raise e \<Rightarrow> (except_Exception_return_False e, self2)
                       | Return content \<Rightarrow>
                          (let self3 = self2\<lparr>local_files := (local_files self2)(temp_file \<mapsto> content)\<rparr>
                           in (case get_file_hash env temp_file self3 of
                                 Raise e \<Rightarrow> (except_Exception_return_False e, self3)
                               | Return file_hash \<Rightarrow>
                                  (let s3_key = generate_s3_key photo fname
                                   in (case file_exists_in_s3 env s3_key file_hash self3 of
                                         (Raise e, self4) \<Rightarrow> (except_Exception_return_False e, self4)
                                       | (Return found, self4) \<Rightarrow>
                                           if found
                                           then (Return True,
                                                 os_remove temp_file
                                                   (self4\<lparr>processed_files :=
                                                            insert photo_id (processed_files self4)\<rparr>))
                                           else
                                            (let metadata =
                                                   [(''original-filename'', fname),
                                                    (''icloud-id'', icloud_id photo),
                                                    (''file-hash'', file_hash),
                                                    (''upload-date'', now_isoformat env (length (trace self4)))]
                                                   @ (case created photo of
                                                        Some d \<Rightarrow> [(''created-date'', isoformat d)]
                                                      | None \<Rightarrow> [])
                                             in (case upload_to_s3 env temp_file s3_key metadata self4 of
                                                   (Raise e, self5) \<Rightarrow>
                                                     (except_Exception_return_False e, self5)
                                                 | (Return ok, self5) \<Rightarrow>
                                                    (let self6 =
                                                           (if ok
                                                            then self5\<lparr>processed_files :=
                                                                         insert photo_id (processed_files self5)\<rparr>
                                                            else self5)
                                                     in (Return True, os_remove temp_file self6)))))))))))))"

subsection \<open>Sync orchestrator\<close>

text \<open>
  Leaving the \<^verbatim>\<open>with tempfile.TemporaryDirectory()\<close> block removes the directory and
  everything under it.
\<close>

definition rmtree :: "string \<Rightarrow> iCloudS3Sync \<Rightarrow> iCloudS3Sync" where
  "rmtree dir self =
     self\<lparr>local_files :=
            (\<lambda>path. if take (length dir + 1) path = dir @ ''/'' then None else local_files self path)\<rparr>"

text \<open>\<^verbatim>\<open>max_photos and i == max_photos\<close>: \<^verbatim>\<open>None\<close> and \<^verbatim>\<open>0\<close> are falsy.\<close>

definition reached_max :: "int option \<Rightarrow> nat \<Rightarrow> bool" where
  "reached_max max_photos i =
     (case max_photos of None \<Rightarrow> False | Some m \<Rightarrow> m \<noteq> 0 \<and> int i = m)"

text \<open>
  The body of \<^verbatim>\<open>for i, photo in enumerate(photos, 1)\<close>, on the photos that are left.
  \<^verbatim>\<open>except Exception\<close> around the call counts an error; a \<^verbatim>\<open>KeyboardInterrupt\<close>
  leaves the loop and the function.
\<close>

fun sync_loop ::
  "env \<Rightarrow> int option \<Rightarrow> string \<Rightarrow> nat \<Rightarrow> photo list \<Rightarrow> stats \<Rightarrow> iCloudS3Sync
     \<Rightarrow> unit py \<times> stats \<times> iCloudS3Sync" where
  "sync_loop env max_photos temp_dir i [] st self = (Return (), st, self)"
| "sync_loop env max_photos temp_dir i (photo # rest) st self =
     (case download_and_upload_photo env photo temp_dir self of
        (r, self1) \<Rightarrow>
          (case (case r of
                   Return ok \<Rightarrow>
                     Return
                       (if ok
                        then (let st1 = st\<lparr>processed := processed st + 1\<rparr>
                              in if item_key photo \<in> processed_files self1
                                 then st1\<lparr>uploaded := uploaded st1 + 1\<rparr>
                                 else st1)
                        else st\<lparr>errors := errors st + 1\<rparr>)
                 | Raise e \<Rightarrow>
                     (if is_Exception e then Return (st\<lparr>errors := errors st + 1\<rparr>) else Raise e)) of
             Raise e \<Rightarrow> (Raise e, st, self1)
           | Return st2 \<Rightarrow>
               (let self2 = (if i mod 10 = 0 then save_sync_state env self1 else self1)
                in if reached_max max_photos i then (Return (), st2, self2)
                   else sync_loop env max_photos temp_dir (i + 1) rest st2 self2)))"

text \<open>
  \<^verbatim>\<open>sync_photos\<close>. An exception that leaves the loop leaves the function too, after
  the temporary directory is removed: the final save is not in a \<^verbatim>\<open>finally\<close>.
\<close>

definition sync_photos :: "env \<Rightarrow> int option \<Rightarrow> iCloudS3Sync \<Rightarrow> stats py \<times> iCloudS3Sync" where
  "sync_photos env max_photos self =
     (case icloud self of
        None \<Rightarrow> (Raise OtherException, self)
      | Some photos \<Rightarrow>
          if \<not> s3_client self then (Raise OtherException, self)
          else
           (let self1 = load_sync_state self
            in if photos = []
               then (Return \<lparr>total = 0, processed = 0, uploaded = 0, skipped = 0, errors = 0\<rparr>, self1)
               else
                (let st = \<lparr>total = length photos, processed = 0, uploaded = 0, skipped = 0, errors = 0\<rparr>;
                     temp_dir = mkdtemp env (length (trace self1))
                 in (case sync_loop env max_photos temp_dir 1 photos st self1 of
                       (Raise e, st1, self2) \<Rightarrow> (Raise e, rmtree temp_dir self2)
                     | (Return u, st1, self2) \<Rightarrow>
                         (Return st1, save_sync_state env (rmtree temp_dir self2))))))"

subsection \<open>Exit status\<close>


subsection \<open>Example inputs\<close>

text \<open>
  Concrete inventories and environments on which the definitions are evaluated. The
  digests are the MD5 digests of the empty string, of \<^verbatim>\<open>a\<close> and of \<^verbatim>\<open>abc\<close>.
\<close>

definition example_md5 :: "bytes \<Rightarrow> string" where
  "example_md5 content =
     (if content = [] then ''d41d8cd98f00b204e9800998ecf8427e''
      else if content = [97] then ''0cc175b9c0f1b6a831c399e269772661''
      else ''900150983cd24fb0d6963f7d28e17f72'')"

text \<open>A bucket that holds nothing and takes every upload.\<close>

definition example_env :: env where
  "example_env =
     \<lparr>md5_hexdigest = example_md5,
      head_object = (\<lambda>t key. Raise (ClientError ''404'')),
      upload_file = (\<lambda>t key. Return ()),
      write_state_file = (\<lambda>t. Return ()),
      now_isoformat = (\<lambda>t. ''2024-05-01T10:00:00''),
      mkdtemp = (\<lambda>t. ''/tmp/tmpk3x9'')\<rparr>"

text \<open>A bucket where every key holds the content \<^verbatim>\<open>a\<close>, uploaded in one part.\<close>

definition env_present :: env where
  "env_present =
     example_env\<lparr>head_object :=
       (\<lambda>t key. Return (Some ([CHR 0x22] @ ''0cc175b9c0f1b6a831c399e269772661'' @ [CHR 0x22])))\<rparr>"

text \<open>A bucket where every key holds the content \<^verbatim>\<open>a\<close>, uploaded in two parts.\<close>

definition env_multipart :: env where
  "env_multipart =
     example_env\<lparr>head_object :=
       (\<lambda>t key. Return (Some ([CHR 0x22] @ ''7a4f3e0c5b1d4c2e9a8b6f0d1e2c3b4a-2'' @ [CHR 0x22])))\<rparr>"

text \<open>A bucket that refuses every upload.\<close>

definition env_upload_fails :: env where
  "env_upload_fails = example_env\<lparr>upload_file := (\<lambda>t key. Raise (ClientError ''AccessDenied''))\<rparr>"

text \<open>A bucket whose objects the caller may not look at.\<close>

definition env_forbidden :: env where
  "env_forbidden = example_env\<lparr>head_object := (\<lambda>t key. Raise (ClientError ''403''))\<rparr>"

text \<open>A bucket that cannot be reached: the request raises a connection error.\<close>

definition env_unreachable :: env where
  "env_unreachable = example_env\<lparr>head_object := (\<lambda>t key. Raise OtherException)\<rparr>"

definition photo_a :: photo where
  "photo_a =
     \<lparr>icloud_id = ''A1'', filename = Some ''a.jpg'',
      created = Some \<lparr>year = 2024, month = 3, isoformat = ''2024-03-09T18:45:12''\<rparr>,
      asset_date = Some \<lparr>year = 2024, month = 3, isoformat = ''2024-03-09T18:45:12''\<rparr>,
      download = Return (Some (Return [97]))\<rparr>"

definition photo_b :: photo where
  "photo_b =
     \<lparr>icloud_id = ''B2'', filename = Some ''b.jpg'',
      created = Some \<lparr>year = 2023, month = 11, isoformat = ''2023-11-14T09:30:00''\<rparr>,
      asset_date = Some \<lparr>year = 2023, month = 11, isoformat = ''2023-11-14T09:30:00''\<rparr>,
      download = Return (Some (Return [97, 98, 99]))\<rparr>"

text \<open>A photo whose content cannot be read to the end.\<close>

definition photo_read_fails :: photo where
  "photo_read_fails = photo_a\<lparr>download := Return (Some (Raise OtherException))\<rparr>"

text \<open>A photo during whose download the user presses Ctrl-C.\<close>

definition photo_interrupted :: photo where
  "photo_interrupted = photo_b\<lparr>download := Raise KeyboardInterrupt\<rparr>"

text \<open>The object after both setup calls, with no checkpoint file and no local file.\<close>

definition sync_of :: "photo list \<Rightarrow> iCloudS3Sync" where
  "sync_of photos =
     \<lparr>icloud = Some photos, s3_client = True, processed_files = {},
      local_files = Map.empty, state_file = Absent, trace = []\<rparr>"

text \<open>
  The object of a later process on the same machine: \<^verbatim>\<open>__init__\<close> starts from an empty
  set, the files and the bucket are as the earlier process left them.
\<close>

definition next_process :: "iCloudS3Sync \<Rightarrow> iCloudS3Sync" where
  "next_process self = self\<lparr>processed_files := {}\<rparr>"

text \<open>
  What it means, in a trace \<open>tr\<close> and an environment \<open>env\<close>, that the content of a photo
  was confirmed at the destination by the call made at time \<open>t\<close>: that call is the
  \<^verbatim>\<open>head_object\<close> request for the photo's key, and either it answered with a tag equal
  to the digest of the content, or the next call is the upload to that key and it
  succeeded.
\<close>

abbreviation confirmed :: "env \<Rightarrow> event list \<Rightarrow> photo \<Rightarrow> nat \<Rightarrow> bytes \<Rightarrow> bool" where
  "confirmed env tr photo t content \<equiv>
     t < length tr \<and> tr ! t = HeadObject (generate_s3_key photo (photo_filename photo)) \<and>
     ((\<exists>response.
         head_object env t (generate_s3_key photo (photo_filename photo)) = Return response \<and>
         strip_quotes (case response of None \<Rightarrow> [] | Some etag \<Rightarrow> etag) = md5_hexdigest env content)
      \<or> (Suc t < length tr \<and>
          (\<exists>metadata. tr ! Suc t = UploadFile (generate_s3_key photo (photo_filename photo)) metadata) \<and>
          upload_file env (Suc t) (generate_s3_key photo (photo_filename photo)) = Return ()))"

section \<open>Properties of the single steps\<close>

lemmas transfer_defs =
  download_and_upload_photo_def file_exists_in_s3_def upload_to_s3_def get_file_hash_def
  except_Exception_return_False_def os_remove_def item_key_def Let_def

lemmas example_defs =
  example_env_def env_present_def env_multipart_def env_upload_fails_def env_forbidden_def
  env_unreachable_def
  photo_a_def photo_b_def photo_read_fails_def photo_interrupted_def sync_of_def

lemma is_Exception_iff: "is_Exception e \<longleftrightarrow> e \<noteq> KeyboardInterrupt"
  by (cases e) simp_all

lemma save_sync_state_fields [simp]:
  "trace (save_sync_state env self) = trace self @ [SaveState]"
  "processed_files (save_sync_state env self) = processed_files self"
  "local_files (save_sync_state env self) = local_files self"
  by (simp_all add: save_sync_state_def Let_def split: py.splits)

lemma rmtree_fields [simp]:
  "trace (rmtree dir self) = trace self"
  "processed_files (rmtree dir self) = processed_files self"
  "state_file (rmtree dir self) = state_file self"
  by (simp_all add: rmtree_def)

lemma load_sync_state_fields [simp]:
  "trace (load_sync_state self) = trace self"
  "icloud (load_sync_state self) = icloud self"
  by (simp_all add: load_sync_state_def split: state_file_content.splits)

text \<open>The transfer of one photo only adds calls to the trace.\<close>

lemma transfer_extends_trace:
  "\<exists>evs. trace (snd (download_and_upload_photo env photo temp_dir self)) = trace self @ evs"
  by (auto simp: transfer_defs split: if_splits py.splits exn.splits option.splits prod.splits)


text \<open>
  The two places where the transfer adds a key (after a probe that answered true, after
  an upload that returned true) are the only ones.
\<close>

lemma transfer_marks:
  assumes "download_and_upload_photo env photo temp_dir self = (r, self')"
    and "k \<in> processed_files self'" and "k \<notin> processed_files self"
  shows "k = item_key photo \<and> r = Return True \<and>
     (\<exists>content. download photo = Return (Some (Return content)) \<and>
        confirmed env (trace self') photo (Suc (length (trace self))) content)"
  using assms
  by (auto simp: transfer_defs nth_append is_Exception_iff
        split: if_splits py.splits exn.splits option.splits prod.splits)

lemma confirmed_append:
  "confirmed env tr photo t content \<Longrightarrow> confirmed env (tr @ evs) photo t content"
  by (auto simp: nth_append)

text \<open>
  A failed upload: the function still returns \<^verbatim>\<open>True\<close>, with the set of keys unchanged
  and the scratch file removed.
\<close>

lemma failed_upload_outcome:
  assumes "item_key photo \<notin> processed_files self"
    and "download photo = Return (Some (Return content))"
    and "(\<exists>code. head_object env (Suc (length (trace self)))
                    (generate_s3_key photo (photo_filename photo)) = Raise (ClientError code))
         \<or> (\<exists>response. head_object env (Suc (length (trace self)))
                    (generate_s3_key photo (photo_filename photo)) = Return response \<and>
               strip_quotes (case response of None \<Rightarrow> [] | Some etag \<Rightarrow> etag) \<noteq>
                 md5_hexdigest env content)"
    and "upload_file env (Suc (Suc (length (trace self))))
           (generate_s3_key photo (photo_filename photo)) = Raise e"
    and "e \<noteq> KeyboardInterrupt"
  shows "fst (download_and_upload_photo env photo temp_dir self) = Return True
       \<and> processed_files (snd (download_and_upload_photo env photo temp_dir self)) =
           processed_files self
       \<and> local_files (snd (download_and_upload_photo env photo temp_dir self))
           (os_path_join temp_dir (photo_filename photo)) = None"
  using assms
  by (auto simp: transfer_defs is_Exception_iff
        split: if_splits py.splits exn.splits option.splits prod.splits)

text \<open>
  A probe that raises an exception other than \<^verbatim>\<open>ClientError\<close>: the handler returns
  \<^verbatim>\<open>False\<close> and the scratch file stays.
\<close>

lemma caught_exception_outcome:
  assumes "item_key photo \<notin> processed_files self"
    and "download photo = Return (Some (Return content))"
    and "head_object env (Suc (length (trace self)))
           (generate_s3_key photo (photo_filename photo)) = Raise OtherException"
  shows "fst (download_and_upload_photo env photo temp_dir self) = Return False
       \<and> local_files (snd (download_and_upload_photo env photo temp_dir self))
           (os_path_join temp_dir (photo_filename photo)) = Some content"
  using assms
  by (auto simp: transfer_defs is_Exception_iff
        split: if_splits py.splits exn.splits option.splits prod.splits)

section \<open>Properties of the loop\<close>

lemma sync_loop_extends_trace:
  "sync_loop env max_photos temp_dir i photos st self = (r, st', self') \<Longrightarrow>
   \<exists>evs. trace self' = trace self @ evs"
proof (induction photos arbitrary: i st self)
  case Nil
  then show ?case by simp
next
  case (Cons photo rest)
  obtain r1 self1 where step: "download_and_upload_photo env photo temp_dir self = (r1, self1)"
    by (cases "download_and_upload_photo env photo temp_dir self")
  from transfer_extends_trace [of env photo temp_dir self] step
  obtain m1 where m1: "trace self1 = trace self @ m1" by auto
  show ?case
    using Cons.prems step m1 Cons.IH
    by (auto simp: Let_def split: py.splits if_splits bool.splits) fastforce+
qed


text \<open>
  One iteration that does not raise increments exactly one of \<open>processed\<close> and
  \<open>errors\<close>, by one, and then either stops at the cap or goes on with the next photo.
\<close>

lemma sync_loop_iteration:
  assumes "sync_loop env max_photos temp_dir i (photo # rest) st self = (Return (), st', self')"
  shows "\<exists>st2 self2.
           (if reached_max max_photos i then st' = st2
            else sync_loop env max_photos temp_dir (Suc i) rest st2 self2 = (Return (), st', self')) \<and>
           (processed st2 = Suc (processed st) \<and> errors st2 = errors st \<or>
            processed st2 = processed st \<and> errors st2 = Suc (errors st))"
proof -
  obtain r1 self1 where step: "download_and_upload_photo env photo temp_dir self = (r1, self1)"
    by (cases "download_and_upload_photo env photo temp_dir self")
  show ?thesis
    using assms step
    by (cases r1; cases "reached_max max_photos i"; cases "i mod 10 = 0")
       (fastforce simp: Let_def split: if_splits)+
qed

lemma sync_loop_counts:
  "sync_loop env max_photos temp_dir i photos st self = (Return (), st', self') \<Longrightarrow>
   processed st' + errors st' =
     processed st + errors st +
       (case max_photos of
          None \<Rightarrow> length photos
        | Some m \<Rightarrow>
            if int i \<le> m \<and> m < int i + int (length photos) \<and> m \<noteq> 0
            then nat m + 1 - i else length photos)"
proof (induction photos arbitrary: i st self)
  case Nil
  then show ?case by (simp split: option.splits)
next
  case (Cons photo rest)
  from sync_loop_iteration [OF Cons.prems]
  obtain st2 self2 where
    rest: "if reached_max max_photos i then st' = st2
           else sync_loop env max_photos temp_dir (Suc i) rest st2 self2 = (Return (), st', self')" and
    one: "processed st2 + errors st2 = Suc (processed st + errors st)"
    by fastforce
  show ?case
  proof (cases "reached_max max_photos i")
    case True
    with one rest show ?thesis
      by (auto simp: reached_max_def split: option.splits)
  next
    case False
    with rest have "sync_loop env max_photos temp_dir (Suc i) rest st2 self2 = (Return (), st', self')"
      by simp
    from Cons.IH [OF this] one False show ?thesis
      by (auto simp: reached_max_def split: option.splits if_splits)
  qed
qed

text \<open>
  After the transfer of the first photo the loop either ends, with the set of keys as
  the transfer left it, or goes on from a state with that set.
\<close>

lemma sync_loop_Cons:
  assumes "sync_loop env max_photos temp_dir i (photo # rest) st self = (r, st', self')"
    and "download_and_upload_photo env photo temp_dir self = (r1, self1)"
  shows "(processed_files self' = processed_files self1 \<and> (\<exists>evs. trace self' = trace self1 @ evs))
       \<or> (\<exists>st2 self2.
            sync_loop env max_photos temp_dir (Suc i) rest st2 self2 = (r, st', self') \<and>
            processed_files self2 = processed_files self1 \<and>
            (\<exists>evs. trace self2 = trace self1 @ evs))"
  using assms
  by (cases r1; cases "reached_max max_photos i"; cases "i mod 10 = 0")
     (fastforce simp: Let_def split: if_splits)+

lemma sync_loop_marks:
  "sync_loop env max_photos temp_dir i photos st self = (r, st', self') \<Longrightarrow>
   k \<in> processed_files self' \<Longrightarrow> k \<notin> processed_files self \<Longrightarrow>
   \<exists>photo\<in>set photos. \<exists>t content.
      k = item_key photo \<and> download photo = Return (Some (Return content)) \<and>
      length (trace self) \<le> t \<and> confirmed env (trace self') photo t content"
proof (induction photos arbitrary: i st self)
  case Nil
  then show ?case by simp
next
  case (Cons photo rest)
  obtain r1 self1 where step: "download_and_upload_photo env photo temp_dir self = (r1, self1)"
    by (cases "download_and_upload_photo env photo temp_dir self")
  from transfer_extends_trace [of env photo temp_dir self] step
  obtain m1 where m1: "trace self1 = trace self @ m1" by auto
  from sync_loop_Cons [OF Cons.prems(1) step]
  consider (stop) "processed_files self' = processed_files self1"
      "\<exists>evs. trace self' = trace self1 @ evs"
    | (continue) st2 self2 where
      "sync_loop env max_photos temp_dir (Suc i) rest st2 self2 = (r, st', self')"
      "processed_files self2 = processed_files self1"
      "\<exists>evs. trace self2 = trace self1 @ evs"
    by blast
  then show ?case
  proof cases
    case stop
    then obtain evs where evs: "trace self' = trace self1 @ evs" by blast
    from stop Cons.prems have "k \<in> processed_files self1" by simp
    from transfer_marks [OF step this Cons.prems(3)]
    obtain content where c: "k = item_key photo" "download photo = Return (Some (Return content))"
      "confirmed env (trace self1) photo (Suc (length (trace self))) content"
      by blast
    from confirmed_append [OF c(3), of evs] evs
    have "confirmed env (trace self') photo (Suc (length (trace self))) content" by simp
    moreover have "photo \<in> set (photo # rest)" "length (trace self) \<le> Suc (length (trace self))"
      by simp_all
    ultimately show ?thesis using c(1,2) by blast
  next
    case continue
    then obtain evs2 where evs2: "trace self2 = trace self1 @ evs2" by blast
    from sync_loop_extends_trace [OF continue(1)]
    obtain evs3 where evs3: "trace self' = trace self2 @ evs3" by blast
    show ?thesis
    proof (cases "k \<in> processed_files self1")
      case True
      from transfer_marks [OF step True Cons.prems(3)]
      obtain content where c: "k = item_key photo" "download photo = Return (Some (Return content))"
        "confirmed env (trace self1) photo (Suc (length (trace self))) content"
        by blast
      from confirmed_append [OF c(3), of "evs2 @ evs3"] evs2 evs3
      have "confirmed env (trace self') photo (Suc (length (trace self))) content" by simp
      moreover have "photo \<in> set (photo # rest)" "length (trace self) \<le> Suc (length (trace self))"
        by simp_all
      ultimately show ?thesis using c(1,2) by blast
    next
      case False
      with continue have "k \<notin> processed_files self2" by simp
      from Cons.IH [OF continue(1) Cons.prems(2) this]
      obtain p t content where p: "p \<in> set rest" "k = item_key p"
        "download p = Return (Some (Return content))" "length (trace self2) \<le> t"
        "confirmed env (trace self') p t content"
        by blast
      from p(4) evs2 m1 have "length (trace self) \<le> t" by simp
      moreover from p(1) have "p \<in> set (photo # rest)" by simp
      ultimately show ?thesis using p(2,3,5) by blast
    qed
  qed
qed

text \<open>No iteration touches the counter \<open>skipped\<close>.\<close>

lemma sync_loop_skipped:
  "sync_loop env max_photos temp_dir i photos st self = (r, st', self') \<Longrightarrow>
   skipped st' = skipped st"
proof (induction photos arbitrary: i st self)
  case Nil
  then show ?case by simp
next
  case (Cons photo rest)
  obtain r1 self1 where step: "download_and_upload_photo env photo temp_dir self = (r1, self1)"
    by (cases "download_and_upload_photo env photo temp_dir self")
  show ?case
    using Cons.prems step
    by (cases r1; cases "reached_max max_photos i"; cases "i mod 10 = 0")
       (auto simp: Let_def split: if_splits dest: Cons.IH)
qed

lemma sync_photos_never_skips:
  "sync_photos env max_photos self = (Return st, self') \<Longrightarrow> skipped st = 0"
  by (auto simp: sync_photos_def Let_def split: option.splits if_splits prod.splits py.splits
        dest: sync_loop_skipped)

section \<open>The claims\<close>

subsection \<open>C1: outcomes and statistics\<close>

text \<open>
  Claim C1 says that a photo found at the destination with a matching hash is counted as
  processed and skipped, so that a run over one such photo returns \<open>skipped = 1\<close> and
  \<open>uploaded = 0\<close>. The loop of \<^verbatim>\<open>sync_photos\<close> never increments \<open>skipped\<close>: it counts
  every photo whose key is in \<^verbatim>\<open>processed_files\<close> after the transfer as uploaded. On one
  photo whose content is at the destination under the tag of its MD5 digest, the run
  makes no upload call, marks the key, and returns \<open>uploaded = 1\<close>, \<open>skipped = 0\<close>.
  (No run returns another value of \<open>skipped\<close> than 0: \<open>sync_photos_never_skips\<close>.)
\<close>

theorem present_item_counted_as_uploaded:
  "fst (sync_photos env_present None (sync_of [photo_a])) =
     Return \<lparr>total = 1, processed = 1, uploaded = 1, skipped = 0, errors = 0\<rparr>
   \<and> trace (snd (sync_photos env_present None (sync_of [photo_a]))) =
       [Download ''A1'', HeadObject ''photos/2024/03/a.jpg'', SaveState]
   \<and> processed_files (snd (sync_photos env_present None (sync_of [photo_a]))) = {''A1_a.jpg''}"
  by code_simp

subsection \<open>C2: the second run\<close>

text \<open>
  Claim C2 says that a second run over an unchanged inventory returns \<open>uploaded = 0\<close>.
  Two photos are absent from the bucket; the first run uploads both and saves the
  checkpoint. The second run, in a new process, reads the checkpoint and resolves both
  photos on the fast path: it adds nothing to the trace but its final save. Its
  statistics nevertheless say \<open>uploaded = 2\<close>, since the loop counts a photo found in the
  checkpoint as uploaded.
\<close>

theorem second_run_counts_uploads:
  "fst (sync_photos example_env None (sync_of [photo_a, photo_b])) =
     Return \<lparr>total = 2, processed = 2, uploaded = 2, skipped = 0, errors = 0\<rparr>
   \<and> fst (sync_photos example_env None
            (next_process (snd (sync_photos example_env None (sync_of [photo_a, photo_b]))))) =
     Return \<lparr>total = 2, processed = 2, uploaded = 2, skipped = 0, errors = 0\<rparr>
   \<and> trace (snd (sync_photos example_env None
            (next_process (snd (sync_photos example_env None (sync_of [photo_a, photo_b])))))) =
     trace (snd (sync_photos example_env None (sync_of [photo_a, photo_b]))) @ [SaveState]"
  by code_simp

subsection \<open>C3: a failed upload\<close>

text \<open>
  Claim C3 says that a photo whose upload fails makes \<^verbatim>\<open>download_and_upload_photo\<close>
  return the failed outcome and leaves its key unmarked. The key is left unmarked, but
  the function falls through to \<^verbatim>\<open>return True\<close>: with a bucket that refuses the upload
  the result is \<^verbatim>\<open>True\<close>, and the run counts the photo as processed, with no error.
  (For every photo and every exception of the upload: \<open>failed_upload_outcome\<close>.)
\<close>

theorem failed_upload_returns_True:
  "fst (download_and_upload_photo env_upload_fails photo_a ''/tmp/tmpk3x9'' (sync_of [photo_a])) =
     Return True
   \<and> item_key photo_a \<notin>
       processed_files (snd (download_and_upload_photo env_upload_fails photo_a ''/tmp/tmpk3x9''
                               (sync_of [photo_a])))
   \<and> fst (sync_photos env_upload_fails None (sync_of [photo_a])) =
       Return \<lparr>total = 1, processed = 1, uploaded = 0, skipped = 0, errors = 0\<rparr>"
  by code_simp

subsection \<open>C4: the flush after the loop\<close>

text \<open>
  Claim C4, amended: a run of \<^verbatim>\<open>sync_photos\<close> that returns its statistics over a
  non-empty inventory executes \<^verbatim>\<open>save_sync_state\<close> right after the loop, whatever
  \<^verbatim>\<open>max_photos\<close> is, so also when the cap ends the loop early: the trace of the run is
  the trace at the end of the loop followed by the save. Over an empty inventory the
  function returns before the loop and makes no call at all.
\<close>

theorem sync_photos_final_flush:
  assumes "sync_photos env max_photos self = (Return st, self')"
    and "icloud self = Some photos"
  shows "if photos = [] then trace self' = trace self
         else fst (sync_loop env max_photos (mkdtemp env (length (trace self))) 1 photos
                     \<lparr>total = length photos, processed = 0, uploaded = 0, skipped = 0, errors = 0\<rparr>
                     (load_sync_state self)) = Return ()
              \<and> trace self' =
                  trace (snd (snd (sync_loop env max_photos (mkdtemp env (length (trace self))) 1 photos
                     \<lparr>total = length photos, processed = 0, uploaded = 0, skipped = 0, errors = 0\<rparr>
                     (load_sync_state self)))) @ [SaveState]"
  using assms
  by (auto simp: sync_photos_def Let_def split: if_splits prod.splits py.splits)

text \<open>Two photos and a cap of one: the loop stops after the first, and the save follows.\<close>

theorem sync_photos_final_flush_witness:
  "fst (sync_photos example_env (Some 1) (sync_of [photo_a, photo_b])) =
     Return \<lparr>total = 2, processed = 1, uploaded = 1, skipped = 0, errors = 0\<rparr>
   \<and> trace (snd (sync_photos example_env (Some 1) (sync_of [photo_a, photo_b]))) =
       trace (snd (snd (sync_loop example_env (Some 1)
                          (mkdtemp example_env (length (trace (sync_of [photo_a, photo_b]))))
                          1 [photo_a, photo_b]
                          \<lparr>total = length [photo_a, photo_b], processed = 0, uploaded = 0,
                             skipped = 0, errors = 0\<rparr>
                          (load_sync_state (sync_of [photo_a, photo_b]))))) @ [SaveState]"
proof -
  have ret: "fst (sync_photos example_env (Some 1) (sync_of [photo_a, photo_b])) =
     Return \<lparr>total = 2, processed = 1, uploaded = 1, skipped = 0, errors = 0\<rparr>"
    by code_simp
  then have run: "sync_photos example_env (Some 1) (sync_of [photo_a, photo_b]) =
     (Return \<lparr>total = 2, processed = 1, uploaded = 1, skipped = 0, errors = 0\<rparr>,
      snd (sync_photos example_env (Some 1) (sync_of [photo_a, photo_b])))"
    by (simp add: prod_eq_iff)
  have inv: "icloud (sync_of [photo_a, photo_b]) = Some [photo_a, photo_b]"
    by (simp add: sync_of_def)
  from sync_photos_final_flush [OF run inv] ret show ?thesis
    by (simp del: sync_loop.simps)
qed

text \<open>
  The claim as it is written fails on the empty inventory: the statistics are all zero
  and the trace stays empty, so no save was executed.
\<close>

theorem empty_inventory_no_flush:
  "fst (sync_photos example_env None (sync_of [])) =
     Return \<lparr>total = 0, processed = 0, uploaded = 0, skipped = 0, errors = 0\<rparr>
   \<and> trace (snd (sync_photos example_env None (sync_of []))) = []"
  by code_simp

subsection \<open>C5: a user interrupt\<close>




subsection \<open>C6: the scratch file\<close>

text \<open>
  Claim C6 says that the scratch file of a photo does not exist when
  \<^verbatim>\<open>download_and_upload_photo\<close> returns, on every exit path. The two paths that return
  after the probe remove it; the path through the exception handler does not. When
  reading the content fails, the file was already created and stays, empty; when the
  probe raises a connection error, it stays with the content
  (for every photo: \<open>caught_exception_outcome\<close>).
\<close>

theorem caught_exception_leaves_scratch_file:
  "local_files (sync_of [photo_read_fails]) ''/tmp/tmpk3x9/a.jpg'' = None
   \<and> fst (download_and_upload_photo example_env photo_read_fails ''/tmp/tmpk3x9''
            (sync_of [photo_read_fails])) = Return False
   \<and> local_files (snd (download_and_upload_photo example_env photo_read_fails ''/tmp/tmpk3x9''
                         (sync_of [photo_read_fails]))) ''/tmp/tmpk3x9/a.jpg'' = Some []
   \<and> fst (download_and_upload_photo env_unreachable photo_a ''/tmp/tmpk3x9''
            (sync_of [photo_a])) = Return False
   \<and> local_files (snd (download_and_upload_photo env_unreachable photo_a ''/tmp/tmpk3x9''
                         (sync_of [photo_a]))) ''/tmp/tmpk3x9/a.jpg'' = Some [97]"
  by code_simp

subsection \<open>C7: keys are marked only after confirmation\<close>

text \<open>
  Claim C7: over a whole run of \<^verbatim>\<open>sync_photos\<close>, whatever the services answer and
  however the run ends, every key that is in \<^verbatim>\<open>processed_files\<close> afterwards and was not
  in the loaded checkpoint is the key of a photo of the inventory whose content was
  downloaded and confirmed during this run: the run made the \<^verbatim>\<open>head_object\<close> request for
  the photo's destination key, and either the answer carried a tag equal to the MD5
  digest of the content, or the upload of that file to that key followed and succeeded.
\<close>

theorem marked_only_when_confirmed:
  assumes "sync_photos env max_photos self = (r, self')"
    and "icloud self = Some photos"
    and "s3_client self"
    and "k \<in> processed_files self'"
    and "k \<notin> processed_files (load_sync_state self)"
  shows "\<exists>photo\<in>set photos. \<exists>t content.
      k = item_key photo \<and> download photo = Return (Some (Return content)) \<and>
      length (trace self) \<le> t \<and> confirmed env (trace self') photo t content"
proof -
  have "photos \<noteq> []"
    using assms by (auto simp: sync_photos_def Let_def split: if_splits)
  let ?dir = "mkdtemp env (length (trace self))"
  obtain r2 st2 self2 where loop:
    "sync_loop env max_photos ?dir 1 photos
       \<lparr>total = length photos, processed = 0, uploaded = 0, skipped = 0, errors = 0\<rparr>
       (load_sync_state self) = (r2, st2, self2)"
    by (metis prod_cases3)
  with assms \<open>photos \<noteq> []\<close>
  have fin: "processed_files self' = processed_files self2"
    "trace self' = trace self2 \<or> trace self' = trace self2 @ [SaveState]"
    by (auto simp: sync_photos_def Let_def split: py.splits)
  with assms have "k \<in> processed_files self2" by simp
  from sync_loop_marks [OF loop this assms(5)]
  obtain p t content where p: "p \<in> set photos" "k = item_key p"
    "download p = Return (Some (Return content))" "length (trace self) \<le> t"
    "confirmed env (trace self2) p t content"
    by auto
  from fin(2) have "confirmed env (trace self') p t content"
  proof
    assume "trace self' = trace self2"
    with p(5) show ?thesis by simp
  next
    assume "trace self' = trace self2 @ [SaveState]"
    with confirmed_append [OF p(5), of "[SaveState]"] show ?thesis by simp
  qed
  with p(1-4) show ?thesis by blast
qed

text \<open>One photo, absent from the bucket: its key is marked, after the upload succeeded.\<close>

theorem marked_only_when_confirmed_witness:
  "item_key photo_a \<in> processed_files (snd (sync_photos example_env None (sync_of [photo_a])))
   \<and> item_key photo_a \<notin> processed_files (load_sync_state (sync_of [photo_a]))
   \<and> (\<exists>t content.
        download photo_a = Return (Some (Return content)) \<and>
        confirmed example_env (trace (snd (sync_photos example_env None (sync_of [photo_a]))))
          photo_a t content)"
proof -
  have run: "sync_photos example_env None (sync_of [photo_a]) =
     (fst (sync_photos example_env None (sync_of [photo_a])),
      snd (sync_photos example_env None (sync_of [photo_a])))"
    by simp
  have inv: "icloud (sync_of [photo_a]) = Some [photo_a]" and cl: "s3_client (sync_of [photo_a])"
    by (simp_all add: sync_of_def)
  have k_in: "item_key photo_a \<in> processed_files (snd (sync_photos example_env None (sync_of [photo_a])))"
    by code_simp
  have k_out: "item_key photo_a \<notin> processed_files (load_sync_state (sync_of [photo_a]))"
    by code_simp
  from marked_only_when_confirmed [OF run inv cl k_in k_out] k_in k_out show ?thesis
    by simp blast
qed

subsection \<open>C8: the destination prober\<close>

text \<open>
  Claim C8, amended: \<^verbatim>\<open>file_exists_in_s3\<close> returns true exactly when \<^verbatim>\<open>head_object\<close>
  answers and the \<^verbatim>\<open>ETag\<close> of the answer, without its double quotes, equals the expected
  hash; it returns false exactly when \<^verbatim>\<open>head_object\<close> raises a \<^verbatim>\<open>ClientError\<close> (the
  object is absent, or the service refuses the request) or answers with another tag; and
  it raises exactly when \<^verbatim>\<open>head_object\<close> raises an exception that is not a
  \<^verbatim>\<open>ClientError\<close>, which it passes on to its caller.
\<close>

theorem file_exists_in_s3_outcomes:
  "(fst (file_exists_in_s3 env s3_key local_hash self) = Return True \<longleftrightarrow>
      (\<exists>response. head_object env (length (trace self)) s3_key = Return response \<and>
         strip_quotes (case response of None \<Rightarrow> [] | Some etag \<Rightarrow> etag) = local_hash))
   \<and> (fst (file_exists_in_s3 env s3_key local_hash self) = Return False \<longleftrightarrow>
      (\<exists>code. head_object env (length (trace self)) s3_key = Raise (ClientError code)) \<or>
      (\<exists>response. head_object env (length (trace self)) s3_key = Return response \<and>
         strip_quotes (case response of None \<Rightarrow> [] | Some etag \<Rightarrow> etag) \<noteq> local_hash))
   \<and> (\<forall>e. fst (file_exists_in_s3 env s3_key local_hash self) = Raise e \<longleftrightarrow>
      head_object env (length (trace self)) s3_key = Raise e \<and> (\<forall>code. e \<noteq> ClientError code))"
  by (auto simp: file_exists_in_s3_def Let_def split: py.splits exn.splits option.splits)

text \<open>
  A matching tag, a tag of another form, an absent object and a refused request.
\<close>

theorem file_exists_in_s3_outcomes_witness:
  "fst (file_exists_in_s3 env_present ''photos/2024/03/a.jpg''
          ''0cc175b9c0f1b6a831c399e269772661'' (sync_of [photo_a])) = Return True
   \<and> fst (file_exists_in_s3 env_multipart ''photos/2024/03/a.jpg''
          ''0cc175b9c0f1b6a831c399e269772661'' (sync_of [photo_a])) = Return False
   \<and> fst (file_exists_in_s3 example_env ''photos/2024/03/a.jpg''
          ''0cc175b9c0f1b6a831c399e269772661'' (sync_of [photo_a])) = Return False
   \<and> fst (file_exists_in_s3 env_forbidden ''photos/2024/03/a.jpg''
          ''0cc175b9c0f1b6a831c399e269772661'' (sync_of [photo_a])) = Return False"
  using file_exists_in_s3_outcomes [of env_present "''photos/2024/03/a.jpg''"
          "''0cc175b9c0f1b6a831c399e269772661''" "sync_of [photo_a]"]
    file_exists_in_s3_outcomes [of env_multipart "''photos/2024/03/a.jpg''"
          "''0cc175b9c0f1b6a831c399e269772661''" "sync_of [photo_a]"]
    file_exists_in_s3_outcomes [of example_env "''photos/2024/03/a.jpg''"
          "''0cc175b9c0f1b6a831c399e269772661''" "sync_of [photo_a]"]
    file_exists_in_s3_outcomes [of env_forbidden "''photos/2024/03/a.jpg''"
          "''0cc175b9c0f1b6a831c399e269772661''" "sync_of [photo_a]"]
  by (simp add: example_defs strip_quotes_def)

text \<open>
  The claim as it is written fails when the bucket cannot be reached: the connection
  error is not a \<^verbatim>\<open>ClientError\<close>, and the prober raises it to its caller.
\<close>

theorem connection_error_leaves_prober:
  "fst (file_exists_in_s3 env_unreachable ''photos/2024/03/a.jpg''
          ''0cc175b9c0f1b6a831c399e269772661'' (sync_of [photo_a])) = Raise OtherException"
  by code_simp

subsection \<open>C9: every iteration is counted once\<close>

text \<open>
  Claim C9: when a run of \<^verbatim>\<open>sync_photos\<close> returns its statistics, \<open>processed + errors\<close>
  is the number of photos the loop went through: \<^verbatim>\<open>max_photos\<close> when the cap stopped the
  loop (it is positive and at most the size of the inventory), the size of the inventory
  otherwise. (That each iteration increments exactly one of the two counters, by one, is
  \<open>sync_loop_iteration\<close>.)
\<close>

theorem sync_photos_counts_items:
  assumes "sync_photos env max_photos self = (Return st, self')"
    and "icloud self = Some photos"
  shows "processed st + errors st =
     (case max_photos of
        None \<Rightarrow> length photos
      | Some m \<Rightarrow> if 0 < m \<and> m \<le> int (length photos) then nat m else length photos)"
proof (cases "photos = []")
  case True
  with assms show ?thesis
    by (auto simp: sync_photos_def Let_def split: if_splits option.splits)
next
  case False
  with assms obtain self2 where
    "sync_loop env max_photos (mkdtemp env (length (trace (load_sync_state self)))) 1 photos
       \<lparr>total = length photos, processed = 0, uploaded = 0, skipped = 0, errors = 0\<rparr>
       (load_sync_state self) = (Return (), st, self2)"
    by (auto simp: sync_photos_def Let_def split: if_splits prod.splits py.splits)
  from sync_loop_counts [OF this] show ?thesis
    by (auto split: option.splits)
qed

text \<open>
  Three photos, a cap of two and a bucket that cannot be reached: two iterations, two
  errors.
\<close>

theorem sync_photos_counts_items_witness:
  "fst (sync_photos env_unreachable (Some 2) (sync_of [photo_a, photo_read_fails, photo_b])) =
     Return \<lparr>total = 3, processed = 0, uploaded = 0, skipped = 0, errors = 2\<rparr>
   \<and> processed \<lparr>total = 3, processed = 0, uploaded = 0, skipped = 0, errors = 2\<rparr>
     + errors \<lparr>total = 3, processed = 0, uploaded = 0, skipped = 0, errors = 2\<rparr> = nat 2"
proof -
  have ret: "fst (sync_photos env_unreachable (Some 2) (sync_of [photo_a, photo_read_fails, photo_b])) =
     Return \<lparr>total = 3, processed = 0, uploaded = 0, skipped = 0, errors = 2\<rparr>"
    by code_simp
  then have run: "sync_photos env_unreachable (Some 2) (sync_of [photo_a, photo_read_fails, photo_b]) =
     (Return \<lparr>total = 3, processed = 0, uploaded = 0, skipped = 0, errors = 2\<rparr>,
      snd (sync_photos env_unreachable (Some 2) (sync_of [photo_a, photo_read_fails, photo_b])))"
    by (simp add: prod_eq_iff)
  have inv: "icloud (sync_of [photo_a, photo_read_fails, photo_b]) =
     Some [photo_a, photo_read_fails, photo_b]"
    by (simp add: sync_of_def)
  from sync_photos_counts_items [OF run inv] ret show ?thesis
    by simp
qed

subsection \<open>C10: tags that are not MD5 digests\<close>



end
